theory Spec2Isabelle
  imports Main
begin

section \<open>Data model (src/types/database.ts, lines 116 to 131)\<close>

text \<open>
  The \<^verbatim>\<open>User\<close> interface.  The optional \<^verbatim>\<open>roles\<close> join and the
  optional \<^verbatim>\<open>needs_password_reset\<close> flag are options.  The field
  \<^verbatim>\<open>id\<close> is written \<open>id'\<close>, since \<open>id\<close> is the identity function of
  HOL.  \<^verbatim>\<open>sub_menu_access\<close> is a JavaScript object used as a dictionary
  (\<^verbatim>\<open>Record<string, string[]>\<close>): the map holds its own properties.
\<close>

record role_join =
  name :: string
  description :: string

record user =
  id' :: string
  email :: string
  full_name :: string
  role_id :: string
  menu_access :: "string list"
  sub_menu_access :: "string \<rightharpoonup> string list"
  component_access :: "string list"
  is_active :: bool
  created_at :: string
  needs_password_reset :: "bool option"
  roles :: "role_join option"

text \<open>
  JavaScript error objects: the code reads only their \<^verbatim>\<open>message\<close> (and, for
  \<^verbatim>\<open>ApiError\<close>, carries a status).  The constructors are the classes of
  error the sources create or receive; there is no other kind.
\<close>

datatype js_error =
    TypeError string
  | Error string
  | SyntaxError string
  | ApiError nat string
  | AuthError string
  | PostgrestError string

fun message_of :: "js_error \<Rightarrow> string" where
  "message_of (TypeError m) = m"
| "message_of (Error m) = m"
| "message_of (SyntaxError m) = m"
| "message_of (ApiError s m) = m"
| "message_of (AuthError m) = m"
| "message_of (PostgrestError m) = m"

section \<open>Access decision engine (src/App.tsx, lines 99 to 152)\<close>

text \<open>\<^verbatim>\<open>Array.prototype.includes\<close> on an array of strings.\<close>

definition array_includes :: "string list \<Rightarrow> string \<Rightarrow> bool" where
  "array_includes xs x = (x \<in> set xs)"

text \<open>\<^verbatim>\<open>user.roles?.name\<close>: undefined when the join is absent.\<close>

definition roleName_of :: "user \<Rightarrow> string option" where
  "roleName_of u = map_option name (roles u)"

text \<open>\<^verbatim>\<open>roleName || ''\<close>.\<close>

definition or_empty :: "string option \<Rightarrow> string" where
  "or_empty r = (case r of None \<Rightarrow> '''' | Some s \<Rightarrow> s)"

fun hasMenuAccess :: "user option \<Rightarrow> string \<Rightarrow> bool" where
  "hasMenuAccess None menuId = False"
| "hasMenuAccess (Some u) menuId =
     (if \<not> is_active u then False
      else array_includes (menu_access u) menuId)"

text \<open>
  Property lookup \<^verbatim>\<open>obj[key]\<close> on a plain object consults the object's own
  properties and then \<^verbatim>\<open>Object.prototype\<close>.  The names below are the
  properties of \<^verbatim>\<open>Object.prototype\<close>; each of them is a function, except
  \<^verbatim>\<open>__proto__\<close>, which yields \<^verbatim>\<open>Object.prototype\<close> itself.  None of these
  values is nullish and none has an \<^verbatim>\<open>includes\<close> method.
\<close>

definition object_prototype_keys :: "string list" where
  "object_prototype_keys =
     [''constructor'', ''__defineGetter__'', ''__defineSetter__'', ''hasOwnProperty'',
      ''__lookupGetter__'', ''__lookupSetter__'', ''isPrototypeOf'',
      ''propertyIsEnumerable'', ''toString'', ''valueOf'', ''__proto__'',
      ''toLocaleString'']"

datatype js_value = Undefined | StringArray "string list" | Inherited

definition get_property :: "(string \<rightharpoonup> string list) \<Rightarrow> string \<Rightarrow> js_value" where
  "get_property obj key =
     (case obj key of
        Some xs \<Rightarrow> StringArray xs
      | None \<Rightarrow> if key \<in> set object_prototype_keys then Inherited else Undefined)"

text \<open>
  \<^verbatim>\<open>user.sub_menu_access[menuId]?.includes(subMenuId) || false\<close>.  The optional
  chain yields undefined only when the looked-up value is nullish; on any other
  value it reads \<^verbatim>\<open>.includes\<close> and calls it, which throws a TypeError when
  the value has no such method.
\<close>

fun hasSubMenuAccess :: "user option \<Rightarrow> string \<Rightarrow> string \<Rightarrow> js_error + bool" where
  "hasSubMenuAccess None menuId subMenuId = Inr False"
| "hasSubMenuAccess (Some u) menuId subMenuId =
     (if \<not> is_active u then Inr False
      else case get_property (sub_menu_access u) menuId of
             Undefined \<Rightarrow> Inr False
           | StringArray xs \<Rightarrow> Inr (array_includes xs subMenuId \<or> False)
           | Inherited \<Rightarrow>
               Inl (TypeError ''user.sub_menu_access[menuId]?.includes is not a function''))"

fun hasComponentAccess :: "user option \<Rightarrow> string \<Rightarrow> bool" where
  "hasComponentAccess None componentId = False"
| "hasComponentAccess (Some u) componentId =
     (if \<not> is_active u then False
      else array_includes (component_access u) componentId)"

fun hasPermission :: "user option \<Rightarrow> string \<Rightarrow> string \<Rightarrow> bool" where
  "hasPermission None resource action = False"
| "hasPermission (Some u) resource action =
     (if \<not> is_active u then False
      else if roleName_of u = Some ''admin'' then True
      else
        let roleName = roleName_of u in
        if resource = ''admin'' then roleName = Some ''admin''
        else if resource = ''dashboard'' then
          array_includes [''admin'', ''member'', ''viewer''] (or_empty roleName)
        else if resource = ''users'' then roleName = Some ''admin''
        else if resource = ''reports'' then
          (if action = ''view'' then
             array_includes [''admin'', ''member'', ''viewer''] (or_empty roleName)
           else if action = ''export'' then
             array_includes [''admin'', ''member''] (or_empty roleName)
           else False)
        else if resource = ''transactions'' then
          (if action = ''create'' then
             array_includes [''admin'', ''member''] (or_empty roleName)
           else if action = ''approve'' then roleName = Some ''admin''
           else False)
        else False)"

definition isAdmin :: "user option \<Rightarrow> bool" where
  "isAdmin u = (case u of None \<Rightarrow> False | Some v \<Rightarrow> roleName_of v = Some ''admin'' \<or> False)"

definition canAccessAdminPanel :: "user option \<Rightarrow> bool" where
  "canAccessAdminPanel u = hasPermission u ''admin'' ''access''"

text \<open>
  The rule table as data: the (resource, action) pairs that the sources name,
  each with its allowed roles.  The pairs are the action tests inside the
  \<^verbatim>\<open>switch\<close> of \<^verbatim>\<open>hasPermission\<close> (for \<^verbatim>\<open>reports\<close> and
  \<^verbatim>\<open>transactions\<close>) and the pairs passed where \<^verbatim>\<open>hasPermission\<close> is
  required or called: (dashboard, access) and (users, read) on the routes of
  \<^verbatim>\<open>App.tsx\<close>, (admin, access) in \<^verbatim>\<open>canAccessAdminPanel\<close>.  The allowed
  roles are those of the branch that decides the pair.
\<close>

type_synonym rule = "(string \<times> string) \<times> string list"

definition rule_table :: "rule list" where
  "rule_table =
     [((''admin'', ''access''), [''admin'']),
      ((''dashboard'', ''access''), [''admin'', ''member'', ''viewer'']),
      ((''users'', ''read''), [''admin'']),
      ((''reports'', ''view''), [''admin'', ''member'', ''viewer'']),
      ((''reports'', ''export''), [''admin'', ''member'']),
      ((''transactions'', ''create''), [''admin'', ''member'']),
      ((''transactions'', ''approve''), [''admin''])]"

text \<open>The allowed roles of a pair, absent when the table has no row for it.\<close>

definition allowed_roles :: "string \<Rightarrow> string \<Rightarrow> string list option" where
  "allowed_roles resource action = map_of rule_table (resource, action)"

section \<open>Collaborators of the admin-users function\<close>

text \<open>
  The identity provider and the directory store are external services.  The
  handler sees only the replies of its calls, so the replies are a parameter:
  an \<open>env\<close> gives, for each call the handler can make, the
  \<^verbatim>\<open>{ data, error }\<close> pair that comes back.  The calls return errors as
  values; they do not reject.
\<close>

record role_lookup =
  l_role_id :: "string option"
  l_roles :: "string option"

record json_body =
  b_email :: "string option"
  b_password :: "string option"
  b_full_name :: "string option"
  b_role_id :: "string option"
  b_menu_access :: "string list option"
  b_sub_menu_access :: "(string \<rightharpoonup> string list) option"
  b_component_access :: "string list option"
  b_is_active :: "bool option"
  b_needs_password_reset :: "bool option"

record user_insert =
  ins_id :: string
  ins_email :: "string option"
  ins_full_name :: "string option"
  ins_role_id :: "string option"
  ins_menu_access :: "string list"
  ins_sub_menu_access :: "string \<rightharpoonup> string list"
  ins_component_access :: "string list"
  ins_needs_password_reset :: bool

record user_update =
  upd_full_name :: "string option"
  upd_role_id :: "string option"
  upd_menu_access :: "string list option"
  upd_sub_menu_access :: "(string \<rightharpoonup> string list) option"
  upd_component_access :: "string list option"
  upd_is_active :: "bool option"
  upd_needs_password_reset :: "bool option"

datatype link_outcome = LinkSent | LinkError js_error | LinkThrows js_error

datatype call =
    AuthGetUser string
  | SelectRole string
  | SelectUsers
  | AdminCreateUser "string option" "string option"
  | InsertUser user_insert
  | AdminDeleteUser string
  | GenerateLink "string option" string
  | UpdateUser string user_update
  | SelectEmail string

record env =
  auth_getUser :: "string \<Rightarrow> string option \<times> js_error option"
  select_role :: "string \<Rightarrow> role_lookup option \<times> js_error option"
  select_users :: "user list option \<times> js_error option"
  admin_createUser :: "string option \<Rightarrow> string option \<Rightarrow> string option \<times> js_error option"
  insert_user :: "user_insert \<Rightarrow> user option \<times> js_error option"
  admin_deleteUser :: "string \<Rightarrow> js_error option"
  admin_generateLink :: "string option \<Rightarrow> string \<Rightarrow> link_outcome"
  update_user :: "string \<Rightarrow> user_update \<Rightarrow> user option \<times> js_error option"
  select_email :: "string \<Rightarrow> string option"

text \<open>
  In \<open>auth_getUser\<close> and \<open>admin_createUser\<close> the data is the id of the
  returned identity (\<^verbatim>\<open>user.id\<close>), absent when \<^verbatim>\<open>user\<close> is null.  In
  \<open>select_role\<close> the data is the row \<^verbatim>\<open>{ role_id, roles: { name } }\<close>,
  with \<open>l_roles\<close> the name of the joined role, absent when the join is null.
  \<open>select_email\<close> is \<^verbatim>\<open>currentUser?.email\<close>.
\<close>

section \<open>The admin-users function (supabase/functions/admin-users/index.ts)\<close>

record config =
  SUPABASE_URL :: "string option"
  SUPABASE_SERVICE_ROLE_KEY :: "string option"
  FRONTEND_BASE_URL :: "string option"

record request =
  req_method :: string
  pathname :: string
  authorization :: "string option"
  json :: "json_body option"

text \<open>
  \<open>req_method\<close> is \<^verbatim>\<open>req.method\<close>; \<open>authorization\<close> is \<^verbatim>\<open>req.headers.get('Authorization')\<close>; \<open>json\<close> is the
  parsed body, absent when \<^verbatim>\<open>req.json()\<close> rejects or yields null (the
  destructuring of the body then throws).
\<close>

datatype response_body =
    NullBody
  | ErrorBody string
  | UsersBody "user list option"
  | UserBody "user option"
  | MessageBody string

record response =
  status :: nat
  body :: response_body

text \<open>A string is truthy when it is neither undefined nor empty.\<close>

definition truthy :: "string option \<Rightarrow> bool" where
  "truthy x = (case x of None \<Rightarrow> False | Some s \<Rightarrow> s \<noteq> [])"




definition json_error :: "nat \<Rightarrow> string \<Rightarrow> response" where
  "json_error st msg = \<lparr>status = st, body = ErrorBody msg\<rparr>"

text \<open>The reply of the outer \<^verbatim>\<open>catch\<close>.\<close>

definition internal_server_error :: response where
  "internal_server_error = json_error 500 ''Internal server error''"

definition frontendBaseUrl :: "config \<Rightarrow> string" where
  "frontendBaseUrl cfg =
     (if truthy (FRONTEND_BASE_URL cfg) then or_empty (FRONTEND_BASE_URL cfg)
      else ''http://localhost:5173'')"

definition reset_redirect :: "config \<Rightarrow> string" where
  "reset_redirect cfg = frontendBaseUrl cfg @ ''/reset-password''"


text \<open>The row that the POST branch inserts for the new identity.\<close>

definition new_row :: "json_body \<Rightarrow> string \<Rightarrow> user_insert" where
  "new_row b uid =
     \<lparr>ins_id = uid, ins_email = b_email b, ins_full_name = b_full_name b,
      ins_role_id = b_role_id b,
      ins_menu_access = (case b_menu_access b of None \<Rightarrow> [] | Some m \<Rightarrow> m),
      ins_sub_menu_access = (case b_sub_menu_access b of None \<Rightarrow> Map.empty | Some m \<Rightarrow> m),
      ins_component_access = (case b_component_access b of None \<Rightarrow> [] | Some m \<Rightarrow> m),
      ins_needs_password_reset = True\<rparr>"

text \<open>
  Lines 84 to 133: POST.  Reading \<^verbatim>\<open>authUser.user.id\<close> when the provider
  returned neither an error nor a user throws, and the outer \<^verbatim>\<open>catch\<close>
  answers 500.  The result of \<^verbatim>\<open>deleteUser\<close> in the rollback is not read.
  The reset link is generated inside its own \<^verbatim>\<open>try\<close>: its outcome is logged
  to the console only.
\<close>

definition create_user :: "config \<Rightarrow> env \<Rightarrow> json_body option \<Rightarrow> response \<times> call list" where
  "create_user cfg env parsed =
     (case parsed of
        None \<Rightarrow> (internal_server_error, [])
      | Some b \<Rightarrow>
          (case admin_createUser env (b_email b) (b_password b) of
             (authUser, Some authError) \<Rightarrow>
               (json_error 400 (message_of authError),
                [AdminCreateUser (b_email b) (b_password b)])
           | (None, None) \<Rightarrow>
               (internal_server_error, [AdminCreateUser (b_email b) (b_password b)])
           | (Some uid, None) \<Rightarrow>
               (case insert_user env (new_row b uid) of
                  (newUser, Some profileError) \<Rightarrow>
                    (json_error 400 (message_of profileError),
                     [AdminCreateUser (b_email b) (b_password b),
                      InsertUser (new_row b uid), AdminDeleteUser uid])
                | (newUser, None) \<Rightarrow>
                    (\<lparr>status = 201, body = UserBody newUser\<rparr>,
                     [AdminCreateUser (b_email b) (b_password b),
                      InsertUser (new_row b uid),
                      GenerateLink (b_email b) (reset_redirect cfg)]))))"








section \<open>Collaborators of the browser client\<close>

text \<open>
  The browser talks to the identity provider through the session it holds, to
  the directory store, and to the \<^verbatim>\<open>update-password\<close> function.  As above,
  the replies are a parameter.  \<open>getSession\<close> is \<^verbatim>\<open>session?.access_token\<close>;
  \<open>auth_updateUser\<close> gives \<^verbatim>\<open>data.user?.id\<close> and the error;
  \<open>auth_getUser_self\<close> is the id of the session's user; \<^verbatim>\<open>fetch\<close> either
  rejects or yields a reply whose body may fail to parse as JSON.
\<close>

record profile =
  p_id :: string
  p_email :: string
  p_full_name :: string
  p_is_active :: bool
  p_needs_password_reset :: "bool option"
  p_role_name :: "string option"

record reply_data =
  d_error :: "string option"
  d_message :: "string option"
  d_user :: "string option"

record http_reply =
  ok :: bool
  http_status :: nat
  reply_json :: "reply_data option"

datatype client_call =
    GetSession
  | FetchUpdatePassword string string bool
  | AuthUpdateUser string
  | AuthGetUserSelf
  | SelectProfile string
  | ClearResetFlag string

record client_env =
  getSession :: "string option"
  fetch_update_password :: "string \<Rightarrow> string \<Rightarrow> bool \<Rightarrow> js_error + http_reply"
  auth_updateUser :: "string \<Rightarrow> string option \<times> js_error option"
  auth_getUser_self :: "string option"
  select_profile :: "string \<Rightarrow> profile option \<times> js_error option"
  clear_reset_flag :: "string \<Rightarrow> js_error option"

section \<open>The API helpers (unnamed/part_001)\<close>

definition getAuthHeaders :: "client_env \<Rightarrow> (js_error + string) \<times> client_call list" where
  "getAuthHeaders env =
     (if \<not> truthy (getSession env) then (Inl (Error ''No active session''), [GetSession])
      else (Inr (''Bearer '' @ or_empty (getSession env)), [GetSession]))"

definition handleResponse :: "http_reply \<Rightarrow> js_error + reply_data" where
  "handleResponse response =
     (case reply_json response of
        None \<Rightarrow> Inl (SyntaxError ''Unexpected token in JSON'')
      | Some data \<Rightarrow>
          if \<not> ok response then
            Inl (ApiError (http_status response)
                   (if truthy (d_error data) then or_empty (d_error data)
                    else ''Request failed''))
          else Inr data)"

text \<open>
  \<^verbatim>\<open>authApi.updatePassword\<close> has two parameters: a third argument, as
  \<^verbatim>\<open>changePassword\<close> passes, is dropped.  The bearer it sends is the
  session's.
\<close>

definition updatePassword ::
  "client_env \<Rightarrow> string \<Rightarrow> bool \<Rightarrow> (js_error + reply_data) \<times> client_call list" where
  "updatePassword env newPassword clearNeedsPasswordReset =
     (case getAuthHeaders env of
        (Inl e, log) \<Rightarrow> (Inl e, log)
      | (Inr bearer, log) \<Rightarrow>
          (case fetch_update_password env bearer newPassword clearNeedsPasswordReset of
             Inl e \<Rightarrow>
               (Inl e, log @ [FetchUpdatePassword bearer newPassword clearNeedsPasswordReset])
           | Inr response \<Rightarrow>
               (handleResponse response,
                log @ [FetchUpdatePassword bearer newPassword clearNeedsPasswordReset])))"

section \<open>The authentication context (src/types/database.ts, lines 182 to 418)\<close>

record auth_state =
  user :: "profile option"
  loading :: bool
  error :: "string option"

record pw_result =
  res_message :: "string option"
  res_user :: "string option"

text \<open>
  \<open>pw_result\<close> is the \<^verbatim>\<open>result\<close> of \<^verbatim>\<open>changePassword\<close>: the parsed reply
  of the function in the reset flow, the provider's data in the logged-in flow.
  \<open>res_user\<close> is \<^verbatim>\<open>result?.user?.id\<close>.
\<close>

definition fetchUserProfile :: "client_env \<Rightarrow> string \<Rightarrow> profile option" where
  "fetchUserProfile env userId =
     (case select_profile env userId of
        (d, Some e) \<Rightarrow> None
      | (d, None) \<Rightarrow> d)"

definition refreshUser :: "client_env \<Rightarrow> auth_state \<Rightarrow> auth_state \<times> client_call list" where
  "refreshUser env st =
     (case auth_getUser_self env of
        None \<Rightarrow> (st, [AuthGetUserSelf])
      | Some uid \<Rightarrow>
          (st\<lparr>user := fetchUserProfile env uid\<rparr>, [AuthGetUserSelf, SelectProfile uid]))"

text \<open>Lines 323 to 341 of \<^verbatim>\<open>changePassword\<close>: setting the credential.\<close>

definition set_credential ::
  "client_env \<Rightarrow> auth_state \<Rightarrow> string \<Rightarrow> bool \<Rightarrow> string option
     \<Rightarrow> (js_error + pw_result) \<times> auth_state \<times> client_call list" where
  "set_credential env st newPassword clearNeedsPasswordReset accessToken =
     (if truthy accessToken then
        (case updatePassword env newPassword clearNeedsPasswordReset of
           (Inl e, log) \<Rightarrow> (Inl e, st, log)
         | (Inr data, log) \<Rightarrow>
             (Inr \<lparr>res_message = d_message data, res_user = d_user data\<rparr>, st, log))
      else
        (case auth_updateUser env newPassword of
           (d, Some e) \<Rightarrow> (Inl e, st, [AuthUpdateUser newPassword])
         | (d, None) \<Rightarrow>
             (Inr \<lparr>res_message = None, res_user = d\<rparr>,
              fst (refreshUser env st),
              AuthUpdateUser newPassword # snd (refreshUser env st))))"

text \<open>The \<^verbatim>\<open>catch\<close> and \<^verbatim>\<open>finally\<close> blocks of \<^verbatim>\<open>changePassword\<close>.\<close>

definition failed :: "js_error \<Rightarrow> auth_state \<Rightarrow> auth_state" where
  "failed err st =
     st\<lparr>error := Some (if message_of err = [] then ''Unexpected error'' else message_of err),
        loading := False\<rparr>"

text \<open>
  \<^verbatim>\<open>changePassword\<close>: the value returned or the error thrown, the new state
  of the context, and the calls made.
\<close>

definition changePassword ::
  "client_env \<Rightarrow> auth_state \<Rightarrow> string \<Rightarrow> bool \<Rightarrow> string option
     \<Rightarrow> (js_error + pw_result) \<times> auth_state \<times> client_call list" where
  "changePassword env st newPassword clearNeedsPasswordReset accessToken =
     (case set_credential env (st\<lparr>loading := True, error := None\<rparr>)
             newPassword clearNeedsPasswordReset accessToken of
        (Inl err, st1, log) \<Rightarrow> (Inl err, failed err st1, log)
      | (Inr result, st1, log) \<Rightarrow>
          if clearNeedsPasswordReset \<and> truthy (res_user result) then
            (case clear_reset_flag env (or_empty (res_user result)) of
               Some updateError \<Rightarrow>
                 (Inl updateError, failed updateError st1,
                  log @ [ClearResetFlag (or_empty (res_user result))])
             | None \<Rightarrow>
                 (Inr result, st1\<lparr>loading := False\<rparr>,
                  log @ [ClearResetFlag (or_empty (res_user result))]))
          else (Inr result, st1\<lparr>loading := False\<rparr>, log))"

section \<open>The reset page (unnamed/part_000)\<close>

record passwordValidationResult =
  isValid :: bool
  v_message :: string
  errors :: "string list"

record page_state =
  password :: string
  confirmPassword :: string
  message :: "string option"
  isSuccess :: bool
  isLoading :: bool
  accessToken :: "string option"
  passwordValidation :: "passwordValidationResult option"
  navigation :: "string option"

text \<open>
  \<open>navigation\<close> is the redirect that \<^verbatim>\<open>handleSubmit\<close> schedules with
  \<^verbatim>\<open>setTimeout\<close>.
\<close>

text \<open>\<^verbatim>\<open>String.prototype.includes\<close>.\<close>

fun str_includes :: "string \<Rightarrow> string \<Rightarrow> bool" where
  "str_includes [] pat = (pat = [])"
| "str_includes (c # cs) pat = (take (length pat) (c # cs) = pat \<or> str_includes cs pat)"

text \<open>
  Lines 73 to 129.  The call is \<^verbatim>\<open>changePassword(password, true)\<close>: the
  token is tested for presence and is not passed on.
\<close>

definition handleSubmit ::
  "client_env \<Rightarrow> auth_state \<Rightarrow> page_state \<Rightarrow> page_state \<times> auth_state \<times> client_call list" where
  "handleSubmit env st pg =
     (let pg0 = pg\<lparr>message := None, isSuccess := False\<rparr> in
      if password pg \<noteq> confirmPassword pg then
        (pg0\<lparr>message := Some ''Passwords do not match.''\<rparr>, st, [])
      else if \<not> (case passwordValidation pg of None \<Rightarrow> False | Some v \<Rightarrow> isValid v) then
        (pg0\<lparr>message := Some ''Password does not meet strength requirements.''\<rparr>, st, [])
      else if \<not> truthy (accessToken pg) then
        (pg0\<lparr>message := Some ''Invalid reset link. Please request a new password reset email.''\<rparr>,
         st, [])
      else
        (case changePassword env st (password pg) True None of
           (Inr result, st1, log) \<Rightarrow>
             (pg0\<lparr>message := Some ''Your password has been successfully reset. Redirecting to login page...'',
                  isSuccess := True, password := [], confirmPassword := [],
                  navigation := Some ''/login'', isLoading := False\<rparr>,
              st1, log)
         | (Inl err, st1, log) \<Rightarrow>
             (let errorMessage =
                    (if message_of err = [] then ''Failed to reset password.''
                     else message_of err)
              in (pg0\<lparr>message :=
                        Some (if str_includes errorMessage ''expired''
                                 \<or> str_includes errorMessage ''invalid''
                              then ''This reset link has expired or is invalid. Please request a new password reset email.''
                              else errorMessage),
                      isSuccess := False, isLoading := False\<rparr>,
                  st1, log))))"

section \<open>The state of the collaborators\<close>

record identity =
  i_email :: string
  i_password :: string

record world =
  identities :: "string \<rightharpoonup> identity"
  directory :: "string \<rightharpoonup> user"

text \<open>
  Modelled from the spec: the effect of the identity provider's and the
  directory store's operations, which are external services (section 6:
  \<^verbatim>\<open>provisionIdentity\<close>, \<^verbatim>\<open>deprovisionIdentity\<close>, row-level insert and
  update).  A call that replies with an error changes nothing.  A successful
  \<^verbatim>\<open>createUser\<close> stores the new identity, a successful \<^verbatim>\<open>deleteUser\<close>
  removes it, and a successful insert or update stores the returned row.
\<close>

fun apply_call :: "env \<Rightarrow> call \<Rightarrow> world \<Rightarrow> world" where
  "apply_call env (AdminCreateUser e p) w =
     (case admin_createUser env e p of
        (Some uid, None) \<Rightarrow>
          w\<lparr>identities := (identities w)(uid \<mapsto> \<lparr>i_email = or_empty e, i_password = or_empty p\<rparr>)\<rparr>
      | _ \<Rightarrow> w)"
| "apply_call env (InsertUser row) w =
     (case insert_user env row of
        (Some u, None) \<Rightarrow> w\<lparr>directory := (directory w)(ins_id row \<mapsto> u)\<rparr>
      | _ \<Rightarrow> w)"
| "apply_call env (AdminDeleteUser uid) w =
     (case admin_deleteUser env uid of
        None \<Rightarrow> w\<lparr>identities := (identities w)(uid := None)\<rparr>
      | Some e \<Rightarrow> w)"
| "apply_call env (UpdateUser uid upd) w =
     (case update_user env uid upd of
        (Some u, None) \<Rightarrow> w\<lparr>directory := (directory w)(uid \<mapsto> u)\<rparr>
      | _ \<Rightarrow> w)"
| "apply_call env c w = w"

fun run_calls :: "env \<Rightarrow> call list \<Rightarrow> world \<Rightarrow> world" where
  "run_calls env [] w = w"
| "run_calls env (c # cs) w = run_calls env cs (apply_call env c w)"

text \<open>An identity with no directory row.\<close>

definition orphaned :: "world \<Rightarrow> string \<Rightarrow> bool" where
  "orphaned w uid = (identities w uid \<noteq> None \<and> directory w uid = None)"

text \<open>
  Modelled from the spec: the effect of the calls the browser makes (section 6:
  \<^verbatim>\<open>setCredential\<close>, partial-field update of a directory row).  A successful
  \<^verbatim>\<open>updateUser\<close> stores the new password for the identity it returns; a
  successful flag update stores \<^verbatim>\<open>needs_password_reset = false\<close> in the row.
  The \<^verbatim>\<open>update-password\<close> function is not among the sources: a reply that
  is accepted and names a user is taken to have stored the password for it.
\<close>

definition set_password :: "string \<Rightarrow> string \<Rightarrow> world \<Rightarrow> world" where
  "set_password uid pw w =
     w\<lparr>identities := (case identities w uid of
                         None \<Rightarrow> identities w
                       | Some i \<Rightarrow> (identities w)(uid \<mapsto> i\<lparr>i_password := pw\<rparr>))\<rparr>"

fun apply_client_call :: "client_env \<Rightarrow> client_call \<Rightarrow> world \<Rightarrow> world" where
  "apply_client_call env (AuthUpdateUser pw) w =
     (case auth_updateUser env pw of
        (Some uid, None) \<Rightarrow> set_password uid pw w
      | _ \<Rightarrow> w)"
| "apply_client_call env (ClearResetFlag uid) w =
     (case clear_reset_flag env uid of
        None \<Rightarrow>
          w\<lparr>directory := (case directory w uid of
                            None \<Rightarrow> directory w
                          | Some row \<Rightarrow> (directory w)(uid \<mapsto> row\<lparr>needs_password_reset := Some False\<rparr>))\<rparr>
      | Some e \<Rightarrow> w)"
| "apply_client_call env (FetchUpdatePassword bearer pw clear) w =
     (case fetch_update_password env bearer pw clear of
        Inr response \<Rightarrow>
          (case handleResponse response of
             Inr data \<Rightarrow> (case d_user data of Some uid \<Rightarrow> set_password uid pw w | None \<Rightarrow> w)
           | Inl e \<Rightarrow> w)
      | Inl e \<Rightarrow> w)"
| "apply_client_call env c w = w"

fun run_client_calls :: "client_env \<Rightarrow> client_call list \<Rightarrow> world \<Rightarrow> world" where
  "run_client_calls env [] w = w"
| "run_client_calls env (c # cs) w = run_client_calls env cs (apply_client_call env c w)"

text \<open>Example principals.\<close>

definition viewer_user :: user where
  "viewer_user =
     \<lparr>id' = ''u-1'', email = ''v@example.org'', full_name = ''Vera'', role_id = ''r-3'',
      menu_access = [], sub_menu_access = Map.empty, component_access = [],
      is_active = True, created_at = ''2024-01-01'', needs_password_reset = Some False,
      roles = Some \<lparr>name = ''viewer'', description = ''read only''\<rparr>\<rparr>"

definition admin_user :: user where
  "admin_user = viewer_user\<lparr>id' := ''u-0'', role_id := ''r-1'',
     roles := Some \<lparr>name = ''admin'', description = ''administrator''\<rparr>\<rparr>"

text \<open>An administrator who has been deactivated and still holds grants.\<close>

definition inactive_admin :: user where
  "inactive_admin = admin_user\<lparr>is_active := False, menu_access := [''m1''],
     sub_menu_access := [''m1'' \<mapsto> [''s1'']], component_access := [''c1'']\<rparr>"

text \<open>A viewer holding one grant of each kind.\<close>

definition granted_viewer :: user where
  "granted_viewer = viewer_user\<lparr>menu_access := [''m1''],
     sub_menu_access := [''m1'' \<mapsto> [''s1'']], component_access := [''c1'']\<rparr>"

text \<open>
  Example replies.  The token \<^verbatim>\<open>tok-admin\<close> authenticates the administrator
  \<^verbatim>\<open>u-0\<close>; the token \<^verbatim>\<open>tok-orphan\<close> authenticates the identity
  \<^verbatim>\<open>u-7\<close>, which has no directory row.  Creating a user yields the identity
  \<^verbatim>\<open>u-9\<close>; inserting its directory row fails.
\<close>

definition demo_env :: env where
  "demo_env =
     \<lparr>auth_getUser = (\<lambda>t. if t = ''tok-admin'' then (Some ''u-0'', None)
                          else if t = ''tok-orphan'' then (Some ''u-7'', None)
                          else (None, Some (AuthError ''invalid JWT''))),
      select_role = (\<lambda>i. if i = ''u-0''
                          then (Some \<lparr>l_role_id = Some ''r-1'', l_roles = Some ''admin''\<rparr>, None)
                          else (None, Some (PostgrestError ''JSON object requested, no rows returned''))),
      select_users = (Some [], None),
      admin_createUser = (\<lambda>e p. (Some ''u-9'', None)),
      insert_user = (\<lambda>row. (None, Some (PostgrestError ''duplicate key value violates unique constraint''))),
      admin_deleteUser = (\<lambda>i. None),
      admin_generateLink = (\<lambda>e r. LinkSent),
      update_user = (\<lambda>i u. (None, Some (PostgrestError ''JSON object requested, no rows returned''))),
      select_email = (\<lambda>i. None)\<rparr>"

text \<open>The same replies, except that deleting an identity fails.\<close>

definition failing_delete_env :: env where
  "failing_delete_env =
     demo_env\<lparr>admin_deleteUser := (\<lambda>i. Some (AuthError ''Database error deleting user''))\<rparr>"

definition demo_config :: config where
  "demo_config =
     \<lparr>SUPABASE_URL = Some ''https://project.supabase.co'',
      SUPABASE_SERVICE_ROLE_KEY = Some ''service-role-key'',
      FRONTEND_BASE_URL = None\<rparr>"

definition demo_body :: json_body where
  "demo_body =
     \<lparr>b_email = Some ''new@example.org'', b_password = Some ''Temp#Pass1'',
      b_full_name = Some ''New User'', b_role_id = Some ''r-3'',
      b_menu_access = None, b_sub_menu_access = None, b_component_access = None,
      b_is_active = None, b_needs_password_reset = None\<rparr>"


definition empty_world :: world where
  "empty_world = \<lparr>identities = Map.empty, directory = Map.empty\<rparr>"

text \<open>
  Example replies for the browser: a session of the viewer \<^verbatim>\<open>u-1\<close> exists,
  the provider accepts the password change, and the directory accepts the flag
  update.
\<close>

definition viewer_profile :: profile where
  "viewer_profile =
     \<lparr>p_id = ''u-1'', p_email = ''v@example.org'', p_full_name = ''Vera'',
      p_is_active = True, p_needs_password_reset = Some True,
      p_role_name = Some ''viewer''\<rparr>"

definition session_env :: client_env where
  "session_env =
     \<lparr>getSession = Some ''session-jwt'',
      fetch_update_password = (\<lambda>bearer pw clear. Inl (TypeError ''Failed to fetch'')),
      auth_updateUser = (\<lambda>pw. (Some ''u-1'', None)),
      auth_getUser_self = Some ''u-1'',
      select_profile = (\<lambda>i. (Some viewer_profile, None)),
      clear_reset_flag = (\<lambda>i. None)\<rparr>"

text \<open>The same replies, except that the directory rejects the flag update.\<close>

definition flag_failure_env :: client_env where
  "flag_failure_env =
     session_env\<lparr>clear_reset_flag := (\<lambda>i. Some (PostgrestError ''JWT expired''))\<rparr>"

definition signed_in :: auth_state where
  "signed_in = \<lparr>user = Some viewer_profile, loading = False, error = None\<rparr>"

definition member_world :: world where
  "member_world =
     \<lparr>identities = [''u-1'' \<mapsto> \<lparr>i_email = ''v@example.org'', i_password = ''Old#Passw0rd''\<rparr>],
      directory = [''u-1'' \<mapsto> viewer_user\<lparr>needs_password_reset := Some True\<rparr>]\<rparr>"

text \<open>The reset page, filled in, holding the token \<open>tok\<close> taken from the URL.\<close>

definition reset_page :: "string \<Rightarrow> page_state" where
  "reset_page tok =
     \<lparr>password = ''N3w#Passw0rd'', confirmPassword = ''N3w#Passw0rd'', message = None,
      isSuccess = False, isLoading = False, accessToken = Some tok,
      passwordValidation = Some \<lparr>isValid = True, v_message = ''Password is strong'', errors = []\<rparr>,
      navigation = None\<rparr>"

section \<open>Properties of the access decision engine\<close>

text \<open>On a pair that has a row, the decision is the row's.\<close>

lemma hasPermission_on_table_rows:
  assumes "allowed_roles resource action = Some allowed"
  shows "hasPermission (Some u) resource action =
           (is_active u \<and>
            (roleName_of u = Some ''admin'' \<or> or_empty (roleName_of u) \<in> set allowed))"
  using assms
  by (cases "roleName_of u")
     (auto simp: allowed_roles_def rule_table_def array_includes_def or_empty_def Let_def
           split: if_splits)

text \<open>The pairs that have no row.\<close>

lemma absent_from_rule_table:
  "allowed_roles resource action = None \<longleftrightarrow>
     (resource, action) \<notin> {(''admin'', ''access''), (''dashboard'', ''access''),
        (''users'', ''read''), (''reports'', ''view''), (''reports'', ''export''),
        (''transactions'', ''create''), (''transactions'', ''approve'')}"
  by (auto simp: allowed_roles_def rule_table_def)

text \<open>
  Claim C1.  An inactive principal is denied by every access decision:
  \<^verbatim>\<open>hasPermission\<close>, \<^verbatim>\<open>hasMenuAccess\<close>, \<^verbatim>\<open>hasSubMenuAccess\<close> and
  \<^verbatim>\<open>hasComponentAccess\<close> all return false, whatever the role, the resource,
  the action, the queried ids and the grant sets.
\<close>

theorem inactive_principal_denied:
  assumes "\<not> is_active u"
  shows "hasPermission (Some u) resource action = False
       \<and> hasMenuAccess (Some u) menuId = False
       \<and> hasSubMenuAccess (Some u) menuId subMenuId = Inr False
       \<and> hasComponentAccess (Some u) componentId = False"
  using assms by simp

theorem inactive_principal_denied_witness:
  "\<not> is_active inactive_admin
   \<and> hasPermission (Some inactive_admin) ''dashboard'' ''access'' = False
   \<and> hasMenuAccess (Some inactive_admin) ''m1'' = False
   \<and> hasSubMenuAccess (Some inactive_admin) ''m1'' ''s1'' = Inr False
   \<and> hasComponentAccess (Some inactive_admin) ''c1'' = False"
proof -
  have h: "\<not> is_active inactive_admin"
    by (simp add: inactive_admin_def)
  show ?thesis
    using h inactive_principal_denied [OF h, of "''dashboard''" "''access''" "''m1''" "''s1''" "''c1''"]
    by simp
qed

text \<open>
  Claim C2 (as stated).  The claim lets every principal whose role name is
  \<^verbatim>\<open>admin\<close> pass \<^verbatim>\<open>hasPermission\<close> with no other condition.  The source
  tests \<^verbatim>\<open>is_active\<close> before the admin short-circuit: a deactivated
  administrator is denied.
\<close>

theorem admin_unconditional_counterexample:
  "roleName_of inactive_admin = Some ''admin''
   \<and> hasPermission (Some inactive_admin) ''users'' ''read'' = False"
  by (simp add: inactive_admin_def admin_user_def viewer_user_def roleName_of_def)

text \<open>
  Claim C2 (amended).  Every active principal whose role name is \<^verbatim>\<open>admin\<close>
  passes \<^verbatim>\<open>hasPermission\<close> for every resource string and every action string.
\<close>

theorem active_admin_allowed:
  assumes "is_active u" and "roleName_of u = Some ''admin''"
  shows "hasPermission (Some u) resource action = True"
  using assms by simp

theorem active_admin_allowed_witness:
  "is_active admin_user \<and> roleName_of admin_user = Some ''admin''
   \<and> hasPermission (Some admin_user) ''no-such-resource'' ''no-such-action'' = True"
proof -
  have a: "is_active admin_user"
    by (simp add: admin_user_def viewer_user_def)
  have r: "roleName_of admin_user = Some ''admin''"
    by (simp add: admin_user_def roleName_of_def)
  show ?thesis
    using a r active_admin_allowed [OF a r, of "''no-such-resource''" "''no-such-action''"]
    by simp
qed

text \<open>
  Claim C6 (as stated).  The claim holds that a pair absent from the rule table
  is denied for every role other than \<^verbatim>\<open>admin\<close>, also when the action is
  unknown for a known resource.  The \<^verbatim>\<open>dashboard\<close> branch of the switch does
  not read the action: the pair (dashboard, delete-everything) has no row, and
  the viewer is allowed.
\<close>

theorem dashboard_unknown_action_counterexample:
  "allowed_roles ''dashboard'' ''delete-everything'' = None
   \<and> roleName_of viewer_user \<noteq> Some ''admin''
   \<and> hasPermission (Some viewer_user) ''dashboard'' ''delete-everything'' = True"
  by (simp add: allowed_roles_def rule_table_def viewer_user_def roleName_of_def or_empty_def
        array_includes_def)

text \<open>
  Claim C6 (amended).  When the pair (resource, action) has no row in the rule
  table, the resource is not \<^verbatim>\<open>dashboard\<close> and the principal's role is not
  \<^verbatim>\<open>admin\<close>, \<^verbatim>\<open>hasPermission\<close> returns false.  The function is total and
  returns a boolean on every input, so the denial is a value and never an
  exception.  This covers a resource with no row at all and an action unknown
  for \<^verbatim>\<open>admin\<close>, \<^verbatim>\<open>users\<close>, \<^verbatim>\<open>reports\<close> or \<^verbatim>\<open>transactions\<close>.  For
  \<^verbatim>\<open>dashboard\<close> the action is not read: every action is decided as
  (dashboard, access) is.
\<close>

theorem absent_rule_denied_unless_dashboard:
  assumes "allowed_roles resource action = None"
      and "resource \<noteq> ''dashboard''"
      and "roleName_of u \<noteq> Some ''admin''"
  shows "hasPermission (Some u) resource action = False
       \<and> hasPermission (Some u) ''dashboard'' action
           = hasPermission (Some u) ''dashboard'' ''access''"
  using assms
  by (auto simp: allowed_roles_def rule_table_def Let_def split: if_splits)

theorem absent_rule_denied_unless_dashboard_witness:
  "allowed_roles ''invoices'' ''view'' = None
   \<and> allowed_roles ''reports'' ''delete'' = None
   \<and> allowed_roles ''users'' ''delete'' = None
   \<and> roleName_of granted_viewer \<noteq> Some ''admin''
   \<and> hasPermission (Some granted_viewer) ''invoices'' ''view'' = False
   \<and> hasPermission (Some granted_viewer) ''reports'' ''delete'' = False
   \<and> hasPermission (Some granted_viewer) ''users'' ''delete'' = False
   \<and> hasPermission (Some granted_viewer) ''dashboard'' ''delete''
       = hasPermission (Some granted_viewer) ''dashboard'' ''access''"
proof -
  have t1: "allowed_roles ''invoices'' ''view'' = None"
    by (simp add: allowed_roles_def rule_table_def)
  have t2: "allowed_roles ''reports'' ''delete'' = None"
    by (simp add: allowed_roles_def rule_table_def)
  have t3: "allowed_roles ''users'' ''delete'' = None"
    by (simp add: allowed_roles_def rule_table_def)
  have d1: "''invoices'' \<noteq> ''dashboard''" by simp
  have d2: "''reports'' \<noteq> ''dashboard''" by simp
  have d3: "''users'' \<noteq> ''dashboard''" by simp
  have r: "roleName_of granted_viewer \<noteq> Some ''admin''"
    by (simp add: granted_viewer_def viewer_user_def roleName_of_def)
  show ?thesis
    using t1 t2 t3 r
      absent_rule_denied_unless_dashboard [OF t1 d1 r]
      absent_rule_denied_unless_dashboard [OF t2 d2 r]
      absent_rule_denied_unless_dashboard [OF t3 d3 r]
    by blast
qed

text \<open>
  Claim C9 (evaluation, with the failing input).  The claim holds that for an
  active principal the menu, sub-menu and component checks are decided by
  membership of the queried id in the corresponding grant set alone, whatever
  the role.  The menu and component checks are exactly membership in
  \<^verbatim>\<open>menu_access\<close> and \<^verbatim>\<open>component_access\<close>.  The sub-menu check is
  membership of the sub-menu id in the list stored under the menu id, the empty
  list when nothing is stored, except for a menu id that has no entry and is a
  property name of \<^verbatim>\<open>Object.prototype\<close>: there the check throws instead of
  denying.  None of the three reads the role: replacing the role join by any
  other leaves each result unchanged.  The viewer with no grants passes
  \<^verbatim>\<open>hasPermission\<close> for (dashboard, access) and fails \<^verbatim>\<open>hasMenuAccess\<close>
  for the dashboard menu.
\<close>

theorem grant_checks_membership_except_inherited:
  assumes "is_active u"
  shows "hasMenuAccess (Some u) menuId = (menuId \<in> set (menu_access u))
       \<and> hasComponentAccess (Some u) componentId = (componentId \<in> set (component_access u))
       \<and> hasSubMenuAccess (Some u) menuId subMenuId =
           (if sub_menu_access u menuId = None \<and> menuId \<in> set object_prototype_keys
            then Inl (TypeError ''user.sub_menu_access[menuId]?.includes is not a function'')
            else Inr (subMenuId \<in> set (case sub_menu_access u menuId of
                                          None \<Rightarrow> [] | Some xs \<Rightarrow> xs)))
       \<and> hasMenuAccess (Some (u\<lparr>roles := r\<rparr>)) menuId = hasMenuAccess (Some u) menuId
       \<and> hasSubMenuAccess (Some (u\<lparr>roles := r\<rparr>)) menuId subMenuId
           = hasSubMenuAccess (Some u) menuId subMenuId
       \<and> hasComponentAccess (Some (u\<lparr>roles := r\<rparr>)) componentId
           = hasComponentAccess (Some u) componentId
       \<and> hasPermission (Some viewer_user) ''dashboard'' ''access''
       \<and> \<not> hasMenuAccess (Some viewer_user) ''dashboard''"
proof -
  have perm: "hasPermission (Some viewer_user) ''dashboard'' ''access''"
    by (simp add: viewer_user_def roleName_of_def or_empty_def array_includes_def)
  have menu: "\<not> hasMenuAccess (Some viewer_user) ''dashboard''"
    by (simp add: viewer_user_def array_includes_def)
  have sub: "hasSubMenuAccess (Some u) menuId subMenuId =
           (if sub_menu_access u menuId = None \<and> menuId \<in> set object_prototype_keys
            then Inl (TypeError ''user.sub_menu_access[menuId]?.includes is not a function'')
            else Inr (subMenuId \<in> set (case sub_menu_access u menuId of
                                          None \<Rightarrow> [] | Some xs \<Rightarrow> xs)))"
    using assms
    by (cases "sub_menu_access u menuId") (simp_all add: array_includes_def get_property_def)
  from assms perm menu sub show ?thesis
    by (simp add: array_includes_def)
qed

theorem grant_checks_membership_except_inherited_witness:
  "is_active granted_viewer
   \<and> sub_menu_access granted_viewer ''toString'' = None
   \<and> hasSubMenuAccess (Some granted_viewer) ''toString'' ''s1''
       = Inl (TypeError ''user.sub_menu_access[menuId]?.includes is not a function'')
   \<and> hasSubMenuAccess (Some granted_viewer) ''m1'' ''s1'' = Inr True
   \<and> hasSubMenuAccess (Some granted_viewer) ''m1'' ''s2'' = Inr False
   \<and> hasSubMenuAccess (Some granted_viewer) ''m2'' ''s1'' = Inr False
   \<and> hasMenuAccess (Some granted_viewer) ''m1'' = True
   \<and> hasMenuAccess (Some granted_viewer) ''m2'' = False
   \<and> hasComponentAccess (Some granted_viewer) ''c1'' = True
   \<and> hasMenuAccess (Some (granted_viewer\<lparr>roles := None\<rparr>)) ''m1'' = True"
proof -
  have a: "is_active granted_viewer"
    by (simp add: granted_viewer_def viewer_user_def)
  have s0: "sub_menu_access granted_viewer ''toString'' = None"
    by (simp add: granted_viewer_def)
  have s1: "sub_menu_access granted_viewer ''m1'' = Some [''s1'']"
    by (simp add: granted_viewer_def)
  have s2: "sub_menu_access granted_viewer ''m2'' = None"
    by (simp add: granted_viewer_def)
  have k0: "''toString'' \<in> set object_prototype_keys"
    by (simp add: object_prototype_keys_def)
  have k2: "''m2'' \<notin> set object_prototype_keys"
    by (simp add: object_prototype_keys_def)
  have m: "menu_access granted_viewer = [''m1'']"
    by (simp add: granted_viewer_def)
  have c: "component_access granted_viewer = [''c1'']"
    by (simp add: granted_viewer_def)
  show ?thesis
    using a s0 s1 s2 k0 k2 m c
      grant_checks_membership_except_inherited [OF a, of "''toString''" "''c1''" "''s1''" None]
      grant_checks_membership_except_inherited [OF a, of "''m1''" "''c1''" "''s1''" None]
      grant_checks_membership_except_inherited [OF a, of "''m1''" "''c1''" "''s2''" None]
      grant_checks_membership_except_inherited [OF a, of "''m2''" "''c1''" "''s1''" None]
    by simp
qed

text \<open>
  A menu id that is neither an own key of \<^verbatim>\<open>sub_menu_access\<close> nor a property
  name of \<^verbatim>\<open>Object.prototype\<close> is denied with the boolean false.
\<close>

lemma hasSubMenuAccess_missing_key:
  assumes "is_active u" and "sub_menu_access u menuId = None"
      and "menuId \<notin> set object_prototype_keys"
  shows "hasSubMenuAccess (Some u) menuId subMenuId = Inr False"
  using assms by (simp add: get_property_def)

text \<open>
  Claim C10 (evaluation at the failing input).  The claim holds that a menu id
  with no entry in \<^verbatim>\<open>sub_menu_access\<close> is always answered with the boolean
  false and never with an error.  The viewer's map is empty, so
  \<^verbatim>\<open>constructor\<close> has no entry; the lookup finds the inherited
  \<^verbatim>\<open>Object.prototype.constructor\<close>, which is not nullish, and the call of its
  missing \<^verbatim>\<open>includes\<close> method throws.
\<close>

theorem hasSubMenuAccess_inherited_key_throws:
  "is_active viewer_user
   \<and> sub_menu_access viewer_user ''constructor'' = None
   \<and> hasSubMenuAccess (Some viewer_user) ''constructor'' ''s1''
       = Inl (TypeError ''user.sub_menu_access[menuId]?.includes is not a function'')"
  by (simp add: viewer_user_def get_property_def object_prototype_keys_def)

section \<open>Properties of the admin-users function\<close>




text \<open>
  Claim C7 (as stated).  The claim holds that after a failed insert the new
  identity is deleted before the operation returns, so that no orphan is left.
  The rollback calls \<^verbatim>\<open>deleteUser\<close> and does not read its result: when that
  call fails, the operation still answers 400 and the identity \<^verbatim>\<open>u-9\<close>
  remains without a directory row.
\<close>

theorem create_user_rollback_counterexample:
  "admin_createUser failing_delete_env (b_email demo_body) (b_password demo_body)
     = (Some ''u-9'', None)
   \<and> snd (insert_user failing_delete_env (new_row demo_body ''u-9'')) \<noteq> None
   \<and> status (fst (create_user demo_config failing_delete_env (Some demo_body))) = 400
   \<and> orphaned (run_calls failing_delete_env
                 (snd (create_user demo_config failing_delete_env (Some demo_body)))
                 empty_world) ''u-9''"
  by (simp add: failing_delete_env_def demo_env_def demo_body_def create_user_def json_error_def
        orphaned_def empty_world_def)

text \<open>
  Claim C7 (amended).  When provisioning the identity succeeds and inserting the
  directory row fails, the operation answers 400 with the message of the
  insert's error, and its calls are the creation, the insert and then the
  deletion of the identity just created.  When that deletion succeeds, the
  identity is gone afterwards.
\<close>

theorem create_user_rollback:
  assumes "admin_createUser env (b_email b) (b_password b) = (Some uid, None)"
      and "insert_user env (new_row b uid) = (newUser, Some profileError)"
  shows "create_user cfg env (Some b) =
           (json_error 400 (message_of profileError),
            [AdminCreateUser (b_email b) (b_password b), InsertUser (new_row b uid),
             AdminDeleteUser uid])
       \<and> (admin_deleteUser env uid = None \<longrightarrow>
            identities (run_calls env (snd (create_user cfg env (Some b))) w) uid = None)"
  using assms by (simp add: create_user_def)

theorem create_user_rollback_witness:
  "admin_createUser demo_env (b_email demo_body) (b_password demo_body) = (Some ''u-9'', None)
   \<and> insert_user demo_env (new_row demo_body ''u-9'')
       = (None, Some (PostgrestError ''duplicate key value violates unique constraint''))
   \<and> admin_deleteUser demo_env ''u-9'' = None
   \<and> create_user demo_config demo_env (Some demo_body) =
       (json_error 400 ''duplicate key value violates unique constraint'',
        [AdminCreateUser (b_email demo_body) (b_password demo_body),
         InsertUser (new_row demo_body ''u-9''), AdminDeleteUser ''u-9''])
   \<and> identities (run_calls demo_env (snd (create_user demo_config demo_env (Some demo_body)))
        empty_world) ''u-9'' = None"
proof -
  have created: "admin_createUser demo_env (b_email demo_body) (b_password demo_body)
      = (Some ''u-9'', None)"
    by (simp add: demo_env_def)
  have insert_failed: "insert_user demo_env (new_row demo_body ''u-9'')
      = (None, Some (PostgrestError ''duplicate key value violates unique constraint''))"
    by (simp add: demo_env_def)
  have deleted: "admin_deleteUser demo_env ''u-9'' = None"
    by (simp add: demo_env_def)
  show ?thesis
    using created insert_failed deleted
      create_user_rollback [OF created insert_failed, of demo_config empty_world]
    by simp
qed

section \<open>Properties of the credential update\<close>

text \<open>
  Claim C3 (as stated).  The claim holds that a failure to clear the flag after
  the password was set is reported as a distinct inconsistent-state error, never
  as a generic store error.  Here the provider sets the password of \<^verbatim>\<open>u-1\<close>
  and the directory rejects the flag update: \<^verbatim>\<open>changePassword\<close> throws the
  very error the store returned, the new password is stored while the flag is
  still set, and the reset page, which reads the error's message only, reports
  an expired link.
\<close>

theorem changePassword_inconsistent_state_counterexample:
  "clear_reset_flag flag_failure_env ''u-1'' = Some (PostgrestError ''JWT expired'')
   \<and> fst (changePassword flag_failure_env signed_in ''N3w#Passw0rd'' True None)
       = Inl (PostgrestError ''JWT expired'')
   \<and> map_option i_password (identities (run_client_calls flag_failure_env
        (snd (snd (changePassword flag_failure_env signed_in ''N3w#Passw0rd'' True None)))
        member_world) ''u-1'') = Some ''N3w#Passw0rd''
   \<and> map_option needs_password_reset (directory (run_client_calls flag_failure_env
        (snd (snd (changePassword flag_failure_env signed_in ''N3w#Passw0rd'' True None)))
        member_world) ''u-1'') = Some (Some True)
   \<and> message (fst (handleSubmit flag_failure_env signed_in (reset_page ''tok-1'')))
       = Some ''This reset link has expired or is invalid. Please request a new password reset email.''"
  by (simp add: flag_failure_env_def session_env_def changePassword_def set_credential_def
        refreshUser_def fetchUserProfile_def truthy_def or_empty_def failed_def member_world_def
        set_password_def handleSubmit_def reset_page_def Let_def)

text \<open>
  Claim C3 (amended).  When setting the new password succeeds for a user and
  clearing \<^verbatim>\<open>needs_password_reset\<close> for that user then fails,
  \<^verbatim>\<open>changePassword\<close> does not report success: it throws the store's error
  itself, unchanged, after recording the error's message in the context's error
  state and resetting \<^verbatim>\<open>loading\<close>.  This holds in both flows (with and
  without an access token).
\<close>

theorem changePassword_flag_failure_rethrown:
  assumes "set_credential env (st\<lparr>loading := True, error := None\<rparr>) newPassword True tok
             = (Inr result, st1, log)"
      and "res_user result = Some uid" and "uid \<noteq> []"
      and "clear_reset_flag env uid = Some updateError"
  shows "changePassword env st newPassword True tok
           = (Inl updateError, failed updateError st1, log @ [ClearResetFlag uid])"
  using assms by (simp add: changePassword_def truthy_def or_empty_def)

theorem changePassword_flag_failure_rethrown_witness:
  "set_credential flag_failure_env (signed_in\<lparr>loading := True, error := None\<rparr>)
       ''N3w#Passw0rd'' True None
     = (Inr \<lparr>res_message = None, res_user = Some ''u-1''\<rparr>,
        \<lparr>user = Some viewer_profile, loading = True, error = None\<rparr>,
        [AuthUpdateUser ''N3w#Passw0rd'', AuthGetUserSelf, SelectProfile ''u-1''])
   \<and> clear_reset_flag flag_failure_env ''u-1'' = Some (PostgrestError ''JWT expired'')
   \<and> changePassword flag_failure_env signed_in ''N3w#Passw0rd'' True None
     = (Inl (PostgrestError ''JWT expired''),
        \<lparr>user = Some viewer_profile, loading = False, error = Some ''JWT expired''\<rparr>,
        [AuthUpdateUser ''N3w#Passw0rd'', AuthGetUserSelf, SelectProfile ''u-1'',
         ClearResetFlag ''u-1''])"
proof -
  have set_ok: "set_credential flag_failure_env (signed_in\<lparr>loading := True, error := None\<rparr>)
       ''N3w#Passw0rd'' True None
     = (Inr \<lparr>res_message = None, res_user = Some ''u-1''\<rparr>,
        \<lparr>user = Some viewer_profile, loading = True, error = None\<rparr>,
        [AuthUpdateUser ''N3w#Passw0rd'', AuthGetUserSelf, SelectProfile ''u-1''])"
    by (simp add: set_credential_def flag_failure_env_def session_env_def signed_in_def
          truthy_def refreshUser_def fetchUserProfile_def)
  have uid: "res_user \<lparr>res_message = None, res_user = Some ''u-1''\<rparr> = Some ''u-1''"
    by simp
  have nonempty: "''u-1'' \<noteq> []"
    by simp
  have flag: "clear_reset_flag flag_failure_env ''u-1'' = Some (PostgrestError ''JWT expired'')"
    by (simp add: flag_failure_env_def)
  show ?thesis
    using set_ok flag changePassword_flag_failure_rethrown [OF set_ok uid nonempty flag]
    by (simp add: failed_def)
qed

text \<open>
  Whatever the replies of the collaborators, the outcome of \<^verbatim>\<open>handleSubmit\<close>
  does not depend on which non-empty token the page holds.
\<close>

lemma handleSubmit_token_independent:
  assumes "tok \<noteq> []" and "tok' \<noteq> []"
  shows "handleSubmit env st (pg\<lparr>accessToken := Some tok'\<rparr>)
       = (fst (handleSubmit env st (pg\<lparr>accessToken := Some tok\<rparr>))\<lparr>accessToken := Some tok'\<rparr>,
          snd (handleSubmit env st (pg\<lparr>accessToken := Some tok\<rparr>)))"
  using assms
  by (auto simp: handleSubmit_def Let_def truthy_def split: prod.splits sum.splits option.splits)

text \<open>
  Claim C4 (evaluation at the failing input).  The claim holds that a redemption
  attempt with an invalid or expired token leaves the credential and the flag
  unchanged and ends in the invalid-or-expired-token error.  The reset page
  tests only that a token is present and calls \<^verbatim>\<open>changePassword(password, true)\<close>
  without it, so the password is changed through the browser's session.  With a
  session of \<^verbatim>\<open>u-1\<close>, whatever non-empty token the URL carried, the page
  reports success, no call carries the token, the password of \<^verbatim>\<open>u-1\<close> is
  replaced and the flag is cleared.
\<close>

theorem handleSubmit_ignores_reset_token:
  assumes "tok \<noteq> []"
  shows "isSuccess (fst (handleSubmit session_env signed_in (reset_page tok)))
       \<and> snd (snd (handleSubmit session_env signed_in (reset_page tok)))
           = [AuthUpdateUser ''N3w#Passw0rd'', AuthGetUserSelf, SelectProfile ''u-1'',
              ClearResetFlag ''u-1'']
       \<and> map_option i_password (identities (run_client_calls session_env
            (snd (snd (handleSubmit session_env signed_in (reset_page tok)))) member_world) ''u-1'')
           = Some ''N3w#Passw0rd''
       \<and> map_option needs_password_reset (directory (run_client_calls session_env
            (snd (snd (handleSubmit session_env signed_in (reset_page tok)))) member_world) ''u-1'')
           = Some (Some False)"
  using assms
  by (simp add: session_env_def changePassword_def set_credential_def
        refreshUser_def fetchUserProfile_def truthy_def or_empty_def failed_def member_world_def
        set_password_def handleSubmit_def reset_page_def Let_def)

theorem handleSubmit_ignores_reset_token_witness:
  "''expired-token'' \<noteq> []
   \<and> isSuccess (fst (handleSubmit session_env signed_in (reset_page ''expired-token'')))
   \<and> map_option i_password (identities member_world ''u-1'') = Some ''Old#Passw0rd''
   \<and> map_option i_password (identities (run_client_calls session_env
        (snd (snd (handleSubmit session_env signed_in (reset_page ''expired-token''))))
        member_world) ''u-1'')
       = Some ''N3w#Passw0rd''"
proof -
  have nonempty: "''expired-token'' \<noteq> []"
    by simp
  have before: "map_option i_password (identities member_world ''u-1'') = Some ''Old#Passw0rd''"
    by (simp add: member_world_def)
  show ?thesis
    using nonempty before handleSubmit_ignores_reset_token [OF nonempty]
    by blast
qed

end
